theory Spec2Isabelle
  imports Complex_Main
begin

section \<open>Values of the JavaScript runtime\<close>

text \<open>
  The tool runtime (\<^verbatim>\<open>.bmad-core/runtime/tool-runtime.ts\<close>) and the MCP client
  (\<^verbatim>\<open>.bmad-core/utils/mcp-client.ts\<close>) are the two modules that
  \<^verbatim>\<open>upgrade-bmad-v6.3.mjs\<close> installs. They work on untyped values: agents, tool
  definitions, the registry and the credential store are whatever \<^verbatim>\<open>yaml.load\<close> gives,
  so the model keeps them as values of one datatype and writes out what every property
  read, optional chain and \<^verbatim>\<open>||\<close> of the source does on each shape.
\<close>

datatype jnum = NaN | PosInf | NegInf | Fin rat

datatype jv =
    JUndef
  | JNull
  | JBool bool
  | JNum jnum
  | JStr string
  | JArr "jv list"
  | JObj "(string \<times> jv) list"

text \<open>
  Every \<^verbatim>\<open>throw\<close> of the two modules is a plain \<^verbatim>\<open>Error\<close> told apart by its message;
  each constructor below is one such message with the values interpolated into it. The
  remaining constructors are the exceptions of the runtime and of the libraries.
\<close>

datatype error =
    Tool_not_found string          \<comment> \<open>\<^verbatim>\<open>Tool not found: ${toolId}\<close>\<close>
  | Access_denied jv string        \<comment> \<open>\<^verbatim>\<open>Access denied: ${agent.id} not authorized for ${toolId}\<close>\<close>
  | Remote_tool_failed string nat  \<comment> \<open>\<^verbatim>\<open>Remote tool ${toolId} failed: ${res.status}\<close>\<close>
  | Unknown_tool_type jv           \<comment> \<open>\<^verbatim>\<open>Unknown tool type: ${tool.tool.type}\<close>\<close>
  | TypeError                      \<comment> \<open>property read of null or undefined, call of a non-function\<close>
  | SyntaxError                    \<comment> \<open>\<^verbatim>\<open>JSON.parse\<close> of a text that is not JSON, invalid socket address\<close>
  | YAMLException                  \<comment> \<open>\<^verbatim>\<open>yaml.load\<close> of a text that is not YAML\<close>
  | IOError                        \<comment> \<open>\<^verbatim>\<open>fs\<close> call on a missing path or on the wrong kind of node\<close>
  | Socket_error string            \<comment> \<open>the argument of the socket's \<^verbatim>\<open>error\<close> event\<close>
  | Foreign_error string           \<comment> \<open>raised by an imported module or by \<^verbatim>\<open>fetch\<close>\<close>

definition nullish :: "jv \<Rightarrow> bool" where
  "nullish v = (v = JUndef \<or> v = JNull)"

text \<open>
  \<open>js_prop v k\<close> is the property read \<^verbatim>\<open>v.k\<close> on a value that is neither null nor undefined.
  A mapping (its keys are distinct) gives the value of its key, or undefined. The keys
  the source reads
  (\<^verbatim>\<open>id\<close>, \<^verbatim>\<open>tools\<close>, \<^verbatim>\<open>allowed\<close>, \<^verbatim>\<open>tool\<close>, \<^verbatim>\<open>type\<close>, \<^verbatim>\<open>entrypoint\<close>, \<^verbatim>\<open>mcpServer\<close>,
  \<^verbatim>\<open>registry\<close>, \<^verbatim>\<open>file\<close>, \<^verbatim>\<open>token\<close>) name no member of a string, number, boolean or
  array, so these give undefined; inherited members and array indices are not modelled.
\<close>

fun js_prop :: "jv \<Rightarrow> string \<Rightarrow> jv" where
  "js_prop (JObj kvs) k = (case map_of kvs k of Some v \<Rightarrow> v | None \<Rightarrow> JUndef)"
| "js_prop _ k = JUndef"

definition get_prop :: "jv \<Rightarrow> string \<Rightarrow> error + jv" where
  \<comment> \<open>\<^verbatim>\<open>v.k\<close>: a TypeError on null and undefined\<close>
  "get_prop v k = (if nullish v then Inl TypeError else Inr (js_prop v k))"

definition opt_prop :: "jv \<Rightarrow> string \<Rightarrow> jv" where
  \<comment> \<open>\<^verbatim>\<open>v?.k\<close>: undefined on null and undefined\<close>
  "opt_prop v k = (if nullish v then JUndef else js_prop v k)"

fun truthy :: "jv \<Rightarrow> bool" where
  "truthy JUndef = False"
| "truthy JNull = False"
| "truthy (JBool b) = b"
| "truthy (JNum NaN) = False"
| "truthy (JNum (Fin r)) = (r \<noteq> 0)"
| "truthy (JNum _) = True"
| "truthy (JStr s) = (s \<noteq> [])"
| "truthy (JArr _) = True"
| "truthy (JObj _) = True"

definition or_js :: "jv \<Rightarrow> jv \<Rightarrow> jv" where
  \<comment> \<open>\<^verbatim>\<open>a || b\<close>\<close>
  "or_js a b = (if truthy a then a else b)"

text \<open>
  A template literal converts the value it interpolates to a string. The conversion
  throws a TypeError on a mapping with a key \<^verbatim>\<open>toString\<close> (its value is data, not a
  function, and the inherited \<^verbatim>\<open>valueOf\<close> gives back the mapping), and on an array that
  holds such a mapping, since an array joins the strings of its elements.
\<close>

fun tostring_fails :: "jv \<Rightarrow> bool" where
  "tostring_fails (JObj kvs) = (map_of kvs ''toString'' \<noteq> None)"
| "tostring_fails (JArr xs) = (\<exists>x \<in> set xs. tostring_fails x)"
| "tostring_fails _ = False"

text \<open>
  \<^verbatim>\<open>Array.prototype.includes\<close> compares with SameValueZero: primitives by value (NaN
  equal to itself), arrays and mappings by reference. The agent and the tool definition
  are separate documents, so a mapping or array of one is never the same object as one of
  the other.
\<close>

fun same_value_zero :: "jv \<Rightarrow> jv \<Rightarrow> bool" where
  "same_value_zero (JArr _) _ = False"
| "same_value_zero (JObj _) _ = False"
| "same_value_zero a b = (a = b)"

definition array_includes :: "jv list \<Rightarrow> jv \<Rightarrow> bool" where
  "array_includes xs v = list_ex (\<lambda>x. same_value_zero x v) xs"

definition startsWith :: "string \<Rightarrow> string \<Rightarrow> bool" where
  \<comment> \<open>\<^verbatim>\<open>f.startsWith(s)\<close>\<close>
  "startsWith f s = (take (length s) f = s)"

section \<open>The file system\<close>

text \<open>
  A path leads to nothing, to a directory (the names \<^verbatim>\<open>readdirSync\<close> lists, in its
  order) or to a file. A file is kept as what \<^verbatim>\<open>yaml.load\<close> makes of its text: a value, or
  nothing when the text is not YAML. Paths are relative to the working directory, which
  does not change.
\<close>

datatype node = Dir "string list" | File "jv option"

type_synonym filesystem = "string \<Rightarrow> node option"

definition existsSync :: "filesystem \<Rightarrow> string \<Rightarrow> bool" where
  "existsSync fs p = (fs p \<noteq> None)"

definition readdirSync :: "filesystem \<Rightarrow> string \<Rightarrow> error + string list" where
  "readdirSync fs p = (case fs p of Some (Dir names) \<Rightarrow> Inr names | _ \<Rightarrow> Inl IOError)"

definition readYAML :: "filesystem \<Rightarrow> string \<Rightarrow> error + jv" where
  \<comment> \<open>\<^verbatim>\<open>yaml.load(fs.readFileSync(file, "utf8"))\<close>\<close>
  "readYAML fs file =
     (case fs file of
        Some (File (Some v)) \<Rightarrow> Inr v
      | Some (File None) \<Rightarrow> Inl YAMLException
      | _ \<Rightarrow> Inl IOError)"

definition exists_js :: "filesystem \<Rightarrow> jv \<Rightarrow> bool" where
  \<comment> \<open>\<^verbatim>\<open>fs.existsSync\<close> on a value: false on everything that is not a path\<close>
  "exists_js fs v = (case v of JStr p \<Rightarrow> existsSync fs p | _ \<Rightarrow> False)"

definition read_js :: "filesystem \<Rightarrow> jv \<Rightarrow> error + jv" where
  "read_js fs v = (case v of JStr p \<Rightarrow> readYAML fs p | _ \<Rightarrow> Inl IOError)"

definition TOOL_DIR :: string where
  "TOOL_DIR = ''.bmad-core/tools''"

definition REGISTRY_PATH :: string where
  "REGISTRY_PATH = ''.bmad-core/data/tool-registry.yaml''"

definition path_join :: "string \<Rightarrow> string \<Rightarrow> string" where
  \<comment> \<open>\<^verbatim>\<open>path.join\<close> of a directory and one of its entry names\<close>
  "path_join d f = d @ ''/'' @ f"

section \<open>The tool catalog: \<^verbatim>\<open>resolveTool\<close>\<close>

text \<open>
  \<^verbatim>\<open>reg.registry?.find(t => t.id === toolId)\<close> on the elements of an array: the first
  element whose \<^verbatim>\<open>id\<close> is the string \<open>toolId\<close>, undefined when there is none, and a
  TypeError at a null element reached before a match.
\<close>

fun find_entry :: "jv list \<Rightarrow> string \<Rightarrow> error + jv" where
  "find_entry [] toolId = Inr JUndef"
| "find_entry (t # ts) toolId =
     (case get_prop t ''id'' of
        Inl e \<Rightarrow> Inl e
      | Inr i \<Rightarrow> if i = JStr toolId then Inr t else find_entry ts toolId)"

definition registry_find :: "jv \<Rightarrow> string \<Rightarrow> error + jv" where
  \<comment> \<open>\<^verbatim>\<open>r?.find(...)\<close>: only an array has a \<^verbatim>\<open>find\<close> to call\<close>
  "registry_find r toolId =
     (if nullish r then Inr JUndef
      else case r of JArr ts \<Rightarrow> find_entry ts toolId | _ \<Rightarrow> Inl TypeError)"

text \<open>
  The two \<^verbatim>\<open>if\<close> blocks of \<^verbatim>\<open>resolveTool\<close>. Each gives \<open>Some\<close> of what it returns or
  throws, and \<open>None\<close> when control falls through to the next statement.
\<close>

definition scan_tool_dir :: "filesystem \<Rightarrow> string \<Rightarrow> (error + jv) option" where
  "scan_tool_dir fs toolId =
     (if existsSync fs TOOL_DIR then
        (case readdirSync fs TOOL_DIR of
           Inl e \<Rightarrow> Some (Inl e)
         | Inr files \<Rightarrow>
             (case find (\<lambda>f. startsWith f toolId) files of
                Some file \<Rightarrow>
                  if truthy (JStr file) then Some (readYAML fs (path_join TOOL_DIR file))
                  else None
              | None \<Rightarrow> None))
      else None)"

definition scan_registry :: "filesystem \<Rightarrow> string \<Rightarrow> (error + jv) option" where
  "scan_registry fs toolId =
     (if existsSync fs REGISTRY_PATH then
        (case readYAML fs REGISTRY_PATH of
           Inl e \<Rightarrow> Some (Inl e)
         | Inr reg \<Rightarrow>
             (case get_prop reg ''registry'' of
                Inl e \<Rightarrow> Some (Inl e)
              | Inr r \<Rightarrow>
                  (case registry_find r toolId of
                     Inl e \<Rightarrow> Some (Inl e)
                   | Inr entry \<Rightarrow>
                       if truthy entry \<and> exists_js fs (js_prop entry ''file'')
                       then Some (read_js fs (js_prop entry ''file''))
                       else None)))
      else None)"

definition resolveTool :: "filesystem \<Rightarrow> string \<Rightarrow> error + jv" where
  "resolveTool fs toolId =
     (case scan_tool_dir fs toolId of
        Some r \<Rightarrow> r
      | None \<Rightarrow>
         (case scan_registry fs toolId of
            Some r \<Rightarrow> r
          | None \<Rightarrow> Inl (Tool_not_found toolId)))"

section \<open>Access control: \<^verbatim>\<open>isAllowed\<close>\<close>

definition orchestrator :: string where
  "orchestrator = ''bmad-orchestrator''"

definition normalize_entry :: "jv \<Rightarrow> error + jv" where
  \<comment> \<open>the callback \<^verbatim>\<open>t => (t.id || t)\<close>\<close>
  "normalize_entry t =
     (case get_prop t ''id'' of Inl e \<Rightarrow> Inl e | Inr i \<Rightarrow> Inr (or_js i t))"

fun map_entries :: "jv list \<Rightarrow> error + jv list" where
  "map_entries [] = Inr []"
| "map_entries (t # ts) =
     (case normalize_entry t of
        Inl e \<Rightarrow> Inl e
      | Inr x \<Rightarrow> (case map_entries ts of Inl e \<Rightarrow> Inl e | Inr xs \<Rightarrow> Inr (x # xs)))"

definition allowed_ids :: "jv \<Rightarrow> error + jv list" where
  \<comment> \<open>\<^verbatim>\<open>agent.tools?.allowed?.map(t => (t.id || t)) || []\<close>, for an agent that is not
      null: only an array has a \<^verbatim>\<open>map\<close> to call, and an array is truthy\<close>
  "allowed_ids agent =
     (let a = opt_prop (js_prop agent ''tools'') ''allowed''
      in if nullish a then Inr []
         else case a of JArr ts \<Rightarrow> map_entries ts | _ \<Rightarrow> Inl TypeError)"

definition tool_id :: "jv \<Rightarrow> jv" where
  \<comment> \<open>\<^verbatim>\<open>tool.tool?.id\<close>, for a definition that is not null\<close>
  "tool_id tool = opt_prop (js_prop tool ''tool'') ''id''"

definition isAllowed :: "jv \<Rightarrow> jv \<Rightarrow> error + bool" where
  "isAllowed agent tool =
     (case get_prop agent ''id'' of
        Inl e \<Rightarrow> Inl e
      | Inr aid \<Rightarrow>
          if aid = JStr orchestrator then Inr True
          else
            (case allowed_ids agent of
               Inl e \<Rightarrow> Inl e
             | Inr allowed \<Rightarrow>
                 (case get_prop tool ''tool'' of
                    Inl e \<Rightarrow> Inl e
                  | Inr tt \<Rightarrow> Inr (array_includes allowed (opt_prop tt ''id'')))))"

section \<open>The outside world\<close>

text \<open>
  What a call awaits either returns, throws, or never settles. The collaborators of the
  runtime are parameters: the dynamic \<^verbatim>\<open>import\<close>, \<^verbatim>\<open>fetch\<close> of node-fetch, the
  \<^verbatim>\<open>WebSocket\<close> of ws, and the conversion of a value that is not a string to a string.
\<close>

datatype 'a outcome = Returned 'a | Threw error | Pending

text \<open>A module namespace: its export \<^verbatim>\<open>run\<close>, when it has one that is a function.\<close>

datatype modl = Modl "(jv \<Rightarrow> jv outcome) option"

text \<open>
  An HTTP response: its status and what \<^verbatim>\<open>res.json()\<close> settles to. node-fetch defines
  \<^verbatim>\<open>res.ok\<close> as a status from 200 to 299.
\<close>

record response =
  res_status :: nat
  res_json :: "jv outcome"

definition res_ok :: "response \<Rightarrow> bool" where
  "res_ok res = (200 \<le> res_status res \<and> res_status res < 300)"

text \<open>
  A socket made by \<^verbatim>\<open>new WebSocket(server)\<close>. The constructor throws on what it does
  not accept (a SyntaxError on a text that is no WebSocket URL, a TypeError on null).
  Otherwise the socket never opens, or emits \<^verbatim>\<open>error\<close> before it opens, or opens once.
  \<open>Opens missed es\<close> is a socket that opens: \<open>missed\<close> are the events it emits after
  \<^verbatim>\<open>open\<close> and before the caller that awaits \<^verbatim>\<open>connectMCP\<close> has resumed and registered
  its listener, and \<open>es\<close> the events it delivers from then on. A received message is
  kept as what \<^verbatim>\<open>JSON.parse\<close> makes of its text: a value, or nothing when the text is
  not JSON.
\<close>

datatype ws_event = WsError string | WsMessage "jv option" | WsClose

datatype socket =
    Throws error
  | Stalls
  | Refused string
  | Opens "ws_event list" "ws_event list"

record world =
  to_string :: "jv \<Rightarrow> string"
  import_module :: "jv \<Rightarrow> modl outcome"
  fetch :: "jv \<Rightarrow> jv \<Rightarrow> response outcome"
  new_socket :: "jv \<Rightarrow> socket"

text \<open>
  What a call does to the outside, in order: \<open>ImportCall ep\<close> is \<^verbatim>\<open>import(ep)\<close>,
  \<open>RunCall p\<close> is \<^verbatim>\<open>mod.run(p)\<close>, \<open>FetchCall url p\<close> is the POST of
  \<^verbatim>\<open>JSON.stringify(p)\<close> to \<open>url\<close>, \<open>SocketNew a\<close> is a socket constructed for the
  address that reads \<open>a\<close>, \<open>SocketSend v\<close> is \<^verbatim>\<open>ws.send(JSON.stringify(v))\<close>, \<open>SocketOnce\<close> is
  \<^verbatim>\<open>ws.once("message", ...)\<close>, and \<open>UncaughtException e\<close> is an exception that
  escapes an event listener.
\<close>

datatype event =
    ImportCall jv
  | RunCall jv
  | FetchCall jv jv
  | SocketNew string
  | SocketSend jv
  | SocketOnce
  | UncaughtException error

section \<open>The MCP client: \<^verbatim>\<open>connectMCP\<close>\<close>

definition authFile :: string where
  "authFile = ''.bmad-core/config/mcp-auth.yaml''"

definition socket_address :: "world \<Rightarrow> jv \<Rightarrow> string" where
  \<comment> \<open>\<^verbatim>\<open>server\<close> as a string: the property key of \<^verbatim>\<open>auth?.[server]\<close> and the text of
      the address\<close>
  "socket_address w server = (case server of JStr s \<Rightarrow> s | _ \<Rightarrow> to_string w server)"

definition read_token :: "filesystem \<Rightarrow> string \<Rightarrow> error + jv" where
  "read_token fs server =
     (if existsSync fs authFile then
        (case readYAML fs authFile of
           Inl e \<Rightarrow> Inl e
         | Inr auth \<Rightarrow> Inr (or_js (opt_prop (opt_prop auth server) ''token'') JNull))
      else Inr JNull)"

definition auth_message :: "jv \<Rightarrow> jv" where
  "auth_message token = JObj [(''action'', JStr ''auth''), (''token'', token)]"

definition invoke_message :: "jv \<Rightarrow> string \<Rightarrow> jv \<Rightarrow> jv" where
  "invoke_message namespace toolId payload =
     JObj [(''action'', JStr ''invoke''), (''namespace'', namespace),
           (''toolId'', JStr toolId), (''payload'', payload)]"

definition on_open :: "jv \<Rightarrow> event list" where
  \<comment> \<open>\<^verbatim>\<open>if (token) ws.send(JSON.stringify({ action: "auth", token }))\<close>\<close>
  "on_open token = (if truthy token then [SocketSend (auth_message token)] else [])"

text \<open>
  The object \<^verbatim>\<open>connectMCP\<close> resolves to: its \<^verbatim>\<open>call\<close> closes over the namespace and the
  socket, which stands here for the events the socket delivers once the caller has
  resumed. The events missed before that have no effect: no listener of \<^verbatim>\<open>message\<close> is
  registered yet, the listener of \<^verbatim>\<open>error\<close> is the \<^verbatim>\<open>reject\<close> of a promise already
  resolved, and \<^verbatim>\<open>close\<close> has no listener.
\<close>

datatype client = Client jv "ws_event list"

definition connectMCP :: "filesystem \<Rightarrow> world \<Rightarrow> jv \<Rightarrow> jv \<Rightarrow> client outcome \<times> event list" where
  "connectMCP fs w server namespace =
     (let address = socket_address w server in
      case read_token fs address of
        Inl e \<Rightarrow> (Threw e, [])
      | Inr token \<Rightarrow>
          (case new_socket w server of
             Throws e \<Rightarrow> (Threw e, [])
           | Stalls \<Rightarrow> (Pending, [SocketNew address])
           | Refused e \<Rightarrow> (Threw (Socket_error e), [SocketNew address])
           | Opens missed es \<Rightarrow>
               (Returned (Client namespace es), SocketNew address # on_open token)))"

text \<open>
  The promise of \<^verbatim>\<open>call\<close> once its listener is registered: \<^verbatim>\<open>res\<close> is its only way
  to settle. The listener of \<^verbatim>\<open>error\<close> is the \<^verbatim>\<open>reject\<close> of the connection promise, which
  is resolved by now, and \<^verbatim>\<open>close\<close> has no listener.
\<close>

fun next_message :: "ws_event list \<Rightarrow> jv outcome \<times> event list" where
  "next_message [] = (Pending, [])"
| "next_message (WsMessage (Some v) # es) = (Returned v, [])"
| "next_message (WsMessage None # es) = (Pending, [UncaughtException SyntaxError])"
| "next_message (WsError e # es) = next_message es"
| "next_message (WsClose # es) = next_message es"

definition call :: "client \<Rightarrow> string \<Rightarrow> jv \<Rightarrow> jv outcome \<times> event list" where
  "call c toolId payload =
     (case c of Client namespace es \<Rightarrow>
        (case next_message es of (r, tr) \<Rightarrow>
           (r, SocketSend (invoke_message namespace toolId payload) # SocketOnce # tr)))"

section \<open>The orchestrator: \<^verbatim>\<open>executeTool\<close>\<close>

definition throw_error :: "jv \<Rightarrow> error \<Rightarrow> error" where
  \<comment> \<open>\<^verbatim>\<open>throw new Error(`... ${v} ...`)\<close>: building the message converts \<open>v\<close> to a
      string first\<close>
  "throw_error v e = (if tostring_fails v then TypeError else e)"

definition run_local :: "world \<Rightarrow> jv \<Rightarrow> jv \<Rightarrow> jv outcome \<times> event list" where
  \<comment> \<open>\<^verbatim>\<open>case "local"\<close>\<close>
  "run_local w entrypoint payload =
     (case import_module w entrypoint of
        Returned (Modl (Some run)) \<Rightarrow> (run payload, [ImportCall entrypoint, RunCall payload])
      | Returned (Modl None) \<Rightarrow> (Threw TypeError, [ImportCall entrypoint])
      | Threw e \<Rightarrow> (Threw e, [ImportCall entrypoint])
      | Pending \<Rightarrow> (Pending, [ImportCall entrypoint]))"

definition run_remote :: "world \<Rightarrow> string \<Rightarrow> jv \<Rightarrow> jv \<Rightarrow> jv outcome \<times> event list" where
  \<comment> \<open>\<^verbatim>\<open>case "remote"\<close>\<close>
  "run_remote w toolId entrypoint payload =
     (case fetch w entrypoint payload of
        Returned res \<Rightarrow>
          (if \<not> res_ok res then Threw (Remote_tool_failed toolId (res_status res))
           else res_json res,
           [FetchCall entrypoint payload])
      | Threw e \<Rightarrow> (Threw e, [FetchCall entrypoint payload])
      | Pending \<Rightarrow> (Pending, [FetchCall entrypoint payload]))"

definition run_mcp :: "filesystem \<Rightarrow> world \<Rightarrow> jv \<Rightarrow> jv \<Rightarrow> string \<Rightarrow> jv \<Rightarrow> jv outcome \<times> event list" where
  \<comment> \<open>\<^verbatim>\<open>case "mcp"\<close>\<close>
  "run_mcp fs w server namespace toolId payload =
     (case connectMCP fs w server namespace of
        (Returned c, tr) \<Rightarrow> (case call c toolId payload of (r, tr') \<Rightarrow> (r, tr @ tr'))
      | (Threw e, tr) \<Rightarrow> (Threw e, tr)
      | (Pending, tr) \<Rightarrow> (Pending, tr))"

definition dispatch :: "filesystem \<Rightarrow> world \<Rightarrow> jv \<Rightarrow> string \<Rightarrow> jv \<Rightarrow> jv outcome \<times> event list" where
  \<comment> \<open>\<^verbatim>\<open>switch (tool.tool.type)\<close>\<close>
  "dispatch fs w tool toolId payload =
     (case get_prop tool ''tool'' of
        Inl e \<Rightarrow> (Threw e, [])
      | Inr tt \<Rightarrow>
          (case get_prop tt ''type'' of
             Inl e \<Rightarrow> (Threw e, [])
           | Inr ty \<Rightarrow>
               if ty = JStr ''local'' then run_local w (js_prop tt ''entrypoint'') payload
               else if ty = JStr ''remote'' then
                 run_remote w toolId (js_prop tt ''entrypoint'') payload
               else if ty = JStr ''mcp'' then
                 run_mcp fs w (js_prop tt ''mcpServer'') (js_prop tt ''entrypoint'') toolId payload
               else (Threw (throw_error ty (Unknown_tool_type ty)), [])))"

definition default_payload :: "jv \<Rightarrow> jv" where
  \<comment> \<open>the parameter \<^verbatim>\<open>payload = {}\<close>: the default stands in for undefined\<close>
  "default_payload p = (if p = JUndef then JObj [] else p)"

definition executeTool :: "filesystem \<Rightarrow> world \<Rightarrow> jv \<Rightarrow> string \<Rightarrow> jv \<Rightarrow> jv outcome \<times> event list" where
  "executeTool fs w agent toolId p =
     (let payload = default_payload p in
      case resolveTool fs toolId of
        Inl e \<Rightarrow> (Threw e, [])
      | Inr tool \<Rightarrow>
          (case isAllowed agent tool of
             Inl e \<Rightarrow> (Threw e, [])
           | Inr allowed \<Rightarrow>
               if \<not> allowed then
                 (Threw (throw_error (js_prop agent ''id'')
                    (Access_denied (js_prop agent ''id'') toolId)), [])
               else dispatch fs w tool toolId payload))"

section \<open>Vocabulary of the specification\<close>

text \<open>
  The specification speaks of the normalized allowed set of an agent: each entry of
  \<^verbatim>\<open>tools.allowed\<close> stands for its \<^verbatim>\<open>id\<close> field when it is a mapping and for itself
  otherwise. \<open>spec_normalize\<close> and \<open>spec_allowed\<close> follow these words, not the code.
\<close>

definition spec_normalize :: "jv \<Rightarrow> jv" where
  "spec_normalize t = (case t of JObj _ \<Rightarrow> js_prop t ''id'' | _ \<Rightarrow> t)"

definition spec_allowed :: "jv \<Rightarrow> jv set" where
  "spec_allowed agent =
     (case opt_prop (js_prop agent ''tools'') ''allowed'' of
        JArr ts \<Rightarrow> set (map spec_normalize ts)
      | _ \<Rightarrow> {})"

text \<open>
  A list of the agent profile or of the registry is well formed when it is absent or an
  array without null elements. An agent profile is a value other than null whose allowed
  list is well formed.
\<close>

definition entries_ok :: "jv \<Rightarrow> bool" where
  "entries_ok a =
     (case a of
        JUndef \<Rightarrow> True
      | JNull \<Rightarrow> True
      | JArr ts \<Rightarrow> list_all (\<lambda>t. \<not> nullish t) ts
      | _ \<Rightarrow> False)"

definition well_formed_agent :: "jv \<Rightarrow> bool" where
  "well_formed_agent agent =
     (\<not> nullish agent \<and> entries_ok (opt_prop (js_prop agent ''tools'') ''allowed''))"

text \<open>
  The two sources of the catalog as the specification names them: the file names of the
  tool-definitions directory (none when there is no directory) and the entries of the
  registry index (none when there is no index or it has no list). The directory is well
  formed when its path, if it exists, is a directory of non-empty names; the index is
  well formed when its path, if it exists, is a document other than null with a
  well-formed list.
\<close>

definition tool_files :: "filesystem \<Rightarrow> string list" where
  "tool_files fs = (case fs TOOL_DIR of Some (Dir names) \<Rightarrow> names | _ \<Rightarrow> [])"

definition registry_entries :: "filesystem \<Rightarrow> jv list" where
  "registry_entries fs =
     (case fs REGISTRY_PATH of
        Some (File (Some reg)) \<Rightarrow>
          (case opt_prop reg ''registry'' of JArr ts \<Rightarrow> ts | _ \<Rightarrow> [])
      | _ \<Rightarrow> [])"

definition tool_dir_ok :: "filesystem \<Rightarrow> bool" where
  "tool_dir_ok fs =
     (case fs TOOL_DIR of
        None \<Rightarrow> True
      | Some (Dir names) \<Rightarrow> [] \<notin> set names
      | Some (File _) \<Rightarrow> False)"

definition registry_ok :: "filesystem \<Rightarrow> bool" where
  "registry_ok fs =
     (case fs REGISTRY_PATH of
        None \<Rightarrow> True
      | Some (File (Some reg)) \<Rightarrow> \<not> nullish reg \<and> entries_ok (js_prop reg ''registry'')
      | _ \<Rightarrow> False)"

text \<open>
  The fallback of the specification: find an entry whose \<^verbatim>\<open>id\<close> equals \<open>toolId\<close> and, if
  the file it refers to exists, parse and return it; otherwise the tool is not found.
\<close>

definition registry_lookup :: "filesystem \<Rightarrow> string \<Rightarrow> error + jv" where
  "registry_lookup fs toolId =
     (case find (\<lambda>t. js_prop t ''id'' = JStr toolId) (registry_entries fs) of
        None \<Rightarrow> Inl (Tool_not_found toolId)
      | Some entry \<Rightarrow>
          (case js_prop entry ''file'' of
             JStr p \<Rightarrow> if fs p \<noteq> None then readYAML fs p else Inl (Tool_not_found toolId)
           | _ \<Rightarrow> Inl (Tool_not_found toolId)))"

text \<open>
  Readings of a trace: the messages sent on the socket, in order, and the number of
  sockets constructed. The credential store is readable when it is absent or a YAML
  document.
\<close>

fun sent_messages :: "event list \<Rightarrow> jv list" where
  "sent_messages [] = []"
| "sent_messages (SocketSend m # tr) = m # sent_messages tr"
| "sent_messages (_ # tr) = sent_messages tr"

fun sockets_opened :: "event list \<Rightarrow> nat" where
  "sockets_opened [] = 0"
| "sockets_opened (SocketNew a # tr) = Suc (sockets_opened tr)"
| "sockets_opened (_ # tr) = sockets_opened tr"

fun listeners_registered :: "event list \<Rightarrow> nat" where
  "listeners_registered [] = 0"
| "listeners_registered (SocketOnce # tr) = Suc (listeners_registered tr)"
| "listeners_registered (_ # tr) = listeners_registered tr"

fun is_message :: "ws_event \<Rightarrow> bool" where
  "is_message (WsMessage m) = True"
| "is_message _ = False"

definition store_readable :: "filesystem \<Rightarrow> bool" where
  "store_readable fs =
     (case fs authFile of None \<Rightarrow> True | Some (File (Some auth)) \<Rightarrow> True | _ \<Rightarrow> False)"

text \<open>
  The token the credential store configures for a server (undefined when it has none),
  and two readings of a socket: the constructor made it, and it opened.
\<close>

definition configured_token :: "filesystem \<Rightarrow> string \<Rightarrow> jv" where
  "configured_token fs server =
     (case fs authFile of
        Some (File (Some auth)) \<Rightarrow> js_prop (js_prop auth server) ''token''
      | _ \<Rightarrow> JUndef)"

fun constructed :: "socket \<Rightarrow> bool" where
  "constructed (Throws e) = False"
| "constructed _ = True"

fun opened :: "socket \<Rightarrow> bool" where
  "opened (Opens missed es) = True"
| "opened _ = False"

section \<open>A project after installation\<close>

text \<open>
  The sample tool that the installer writes to \<^verbatim>\<open>.bmad-core/tools/hello-world.md\<close>, the
  MCP tool and the agent of \<^verbatim>\<open>TOOL_SYSTEM.md\<close>, a remote tool, a registry and a credential
  store.
\<close>

definition hello_world_md :: jv where
  "hello_world_md =
     JObj [(''tool'', JObj [
              (''id'', JStr ''hello-world''),
              (''name'', JStr ''Hello World''),
              (''title'', JStr ''Example Local Tool''),
              (''icon'', JStr [CHR 0xF0, CHR 0x9F, CHR 0x92, CHR 0xAC]),
              (''type'', JStr ''local''),
              (''entrypoint'', JStr ''./bmad-core/runtime/tools/hello-world.js''),
              (''description'', JStr ''Demonstration tool that prints a message.''),
              (''version'', JStr ''1.0.0'')]),
           (''documentation'', JObj [
              (''description'',
                 JStr (''This example tool demonstrates how to define and run a BMAD local tool.''
                       @ [CHR 0x0A])),
              (''usage'', JStr (''@dev: *tool hello-world'' @ [CHR 0x0A])),
              (''example'',
                 JStr (''Input: *tool hello-world'' @ [CHR 0x0A] @ ''Output: '' @ [CHR 0x22]
                       @ ''Hello from BMAD Tools!'' @ [CHR 0x22, CHR 0x0A]))])]"

definition vision_processor_md :: jv where
  "vision_processor_md =
     JObj [(''tool'', JObj [
              (''id'', JStr ''vision-processor''),
              (''type'', JStr ''mcp''),
              (''mcpServer'', JStr ''wss://mcp.bmad.ai''),
              (''entrypoint'', JStr ''vision-tools'')])]"

definition ci_trigger_md :: jv where
  "ci_trigger_md =
     JObj [(''tool'', JObj [
              (''id'', JStr ''ci-trigger''),
              (''type'', JStr ''remote''),
              (''entrypoint'', JStr ''https://ci.bmad.ai/trigger'')])]"

definition system_analyzer_md :: jv where
  "system_analyzer_md =
     JObj [(''tool'', JObj [
              (''id'', JStr ''system-analyzer''),
              (''name'', JStr ''System Analyzer''),
              (''type'', JStr ''local''),
              (''entrypoint'', JStr ''./bmad-core/runtime/tools/system-analyzer.js'')]),
           (''permissions'', JArr [JStr ''architect''])]"

definition project_registry :: jv where
  "project_registry =
     JObj [(''version'', JNum (Fin 1)),
           (''registry'', JArr [
              JObj [(''id'', JStr ''hello-world''), (''file'', JStr ''.bmad-core/tools/hello-world.md'')],
              JObj [(''id'', JStr ''system-analyzer''), (''file'', JStr ''vendor/system-analyzer.md'')],
              JObj [(''id'', JStr ''api-linter''), (''file'', JStr ''vendor/api-linter.md'')]])]"

definition mcp_auth :: jv where
  "mcp_auth = JObj [(''wss://mcp.bmad.ai'', JObj [(''token'', JStr ''s3cr3t'')])]"

definition project_fs :: filesystem where
  "project_fs =
     [TOOL_DIR \<mapsto> Dir [''ci-trigger.md'', ''hello-world.md'', ''vision-processor.md''],
      path_join TOOL_DIR ''ci-trigger.md'' \<mapsto> File (Some ci_trigger_md),
      path_join TOOL_DIR ''hello-world.md'' \<mapsto> File (Some hello_world_md),
      path_join TOOL_DIR ''vision-processor.md'' \<mapsto> File (Some vision_processor_md),
      ''vendor/system-analyzer.md'' \<mapsto> File (Some system_analyzer_md),
      REGISTRY_PATH \<mapsto> File (Some project_registry),
      authFile \<mapsto> File (Some mcp_auth)]"

definition architect :: jv where
  "architect =
     JObj [(''id'', JStr ''architect''),
           (''name'', JStr ''System Architect''),
           (''type'', JStr ''core''),
           (''tools'', JObj [
              (''allowed'', JArr [JStr ''system-analyzer'', JStr ''hello-world'']),
              (''default'', JArr [JStr ''hello-world''])])]"

definition analyst :: jv where
  "analyst =
     JObj [(''id'', JStr ''analyst''),
           (''tools'', JObj [
              (''allowed'', JArr [JStr ''system-analyzer'', JObj [(''id'', JStr ''api-linter'')]])])]"

definition dev :: jv where
  "dev = JObj [(''id'', JStr ''dev''), (''name'', JStr ''Developer'')]"

definition bmad_orchestrator :: jv where
  "bmad_orchestrator = JObj [(''id'', JStr ''bmad-orchestrator'')]"


definition sloppy :: jv where
  "sloppy =
     JObj [(''id'', JStr ''sloppy''),
           (''tools'', JObj [(''allowed'', JArr [JStr ''system-analyzer'', JNull])])]"

text \<open>
  A store whose registry lists the id \<^verbatim>\<open>api-linter\<close> twice: the file of the first entry is
  gone, the file of the second exists.
\<close>

definition api_linter_md :: jv where
  "api_linter_md =
     JObj [(''tool'', JObj [
              (''id'', JStr ''api-linter''),
              (''type'', JStr ''remote''),
              (''entrypoint'', JStr ''https://lint.bmad.ai/run'')])]"

definition duplicate_fs :: filesystem where
  "duplicate_fs =
     [TOOL_DIR \<mapsto> Dir [''hello-world.md''],
      path_join TOOL_DIR ''hello-world.md'' \<mapsto> File (Some hello_world_md),
      ''vendor/api-linter.md'' \<mapsto> File (Some api_linter_md),
      REGISTRY_PATH \<mapsto> File (Some (JObj [(''version'', JNum (Fin 1)),
         (''registry'', JArr [
            JObj [(''id'', JStr ''api-linter''), (''file'', JStr ''old/api-linter.md'')],
            JObj [(''id'', JStr ''api-linter''), (''file'', JStr ''vendor/api-linter.md'')]])]))]"

text \<open>
  Worlds. In \<open>offline\<close> no module loads (the entrypoint of the installed sample tool,
  read from the runtime's directory, names no file), no endpoint answers and every
  socket is refused. In \<open>failing_ci\<close> the CI endpoint answers 500 and in \<open>working_ci\<close>
  200. In \<open>echo_server\<close> the MCP server greets on connection, before the caller
  listens, and then answers one message; in \<open>broken_server\<close> the socket opens, then
  raises an error and closes.
\<close>

definition offline :: world where
  "offline =
     \<lparr> to_string = (\<lambda>v. ''[object Object]''),
       import_module = (\<lambda>ep. Threw (Foreign_error ''ERR_MODULE_NOT_FOUND'')),
       fetch = (\<lambda>url body. Threw (Foreign_error ''ECONNREFUSED'')),
       new_socket = (\<lambda>server. Refused ''ECONNREFUSED'') \<rparr>"

definition failing_ci :: world where
  "failing_ci =
     offline \<lparr> fetch := (\<lambda>url body.
        Returned \<lparr> res_status = 500, res_json = Returned (JObj [(''error'', JStr ''boom'')]) \<rparr>) \<rparr>"

definition working_ci :: world where
  "working_ci =
     offline \<lparr> fetch := (\<lambda>url body.
        Returned \<lparr> res_status = 200, res_json = Returned (JObj [(''queued'', JBool True)]) \<rparr>) \<rparr>"

definition echo_server :: world where
  "echo_server =
     offline \<lparr> new_socket := (\<lambda>server.
        Opens [WsMessage (Some (JStr ''ready''))]
              [WsMessage (Some (JObj [(''received'', JObj [])]))]) \<rparr>"

definition broken_server :: world where
  "broken_server =
     offline \<lparr> new_socket := (\<lambda>server. Opens [] [WsError ''ECONNRESET'', WsClose]) \<rparr>"

section \<open>Properties of the runtime values\<close>

lemma nullish_simps [simp]:
  "nullish JUndef" "nullish JNull" "\<not> nullish (JBool b)" "\<not> nullish (JNum n)"
  "\<not> nullish (JStr s)" "\<not> nullish (JArr xs)" "\<not> nullish (JObj kvs)"
  by (simp_all add: nullish_def)

lemma js_prop_nullish: "nullish v \<Longrightarrow> js_prop v k = JUndef"
  by (auto simp: nullish_def)

lemma opt_prop_js_prop: "opt_prop v k = js_prop v k"
  by (simp add: opt_prop_def js_prop_nullish)

lemma same_value_zero_eq: "same_value_zero a b \<Longrightarrow> a = b"
  by (cases a) auto

lemma id_truthy: "js_prop t ''id'' = JStr toolId \<Longrightarrow> truthy t"
  by (cases t) auto

section \<open>The allowed list of the code against the allowed set of the specification\<close>

lemma normalize_entry_spec:
  assumes "normalize_entry t = Inr x" and "same_value_zero x v"
  shows "spec_normalize t = v"
  using assms
  by (cases t)
    (auto simp: normalize_entry_def get_prop_def or_js_def spec_normalize_def
      split: if_splits dest: same_value_zero_eq)

lemma map_entries_spec:
  "map_entries ts = Inr xs \<Longrightarrow> array_includes xs v \<Longrightarrow> v \<in> set (map spec_normalize ts)"
proof (induction ts arbitrary: xs)
  case Nil
  then show ?case by (simp add: array_includes_def)
next
  case (Cons t ts)
  then show ?case
    by (auto simp: array_includes_def split: sum.splits dest: normalize_entry_spec)
qed

lemma allowed_ids_spec:
  "allowed_ids agent = Inr xs \<Longrightarrow> array_includes xs v \<Longrightarrow> v \<in> spec_allowed agent"
  unfolding allowed_ids_def spec_allowed_def Let_def
  by (auto simp: array_includes_def split: if_splits jv.splits
      dest: map_entries_spec[unfolded array_includes_def])

lemma isAllowed_True_spec:
  "isAllowed agent tool = Inr True \<Longrightarrow>
     js_prop agent ''id'' = JStr orchestrator \<or> tool_id tool \<in> spec_allowed agent"
  unfolding isAllowed_def tool_id_def get_prop_def
  by (auto split: if_splits sum.splits dest: allowed_ids_spec)

lemma map_entries_ok:
  "list_all (\<lambda>t. \<not> nullish t) ts \<Longrightarrow> \<exists>xs. map_entries ts = Inr xs"
  by (induction ts) (auto simp: normalize_entry_def get_prop_def)

lemma allowed_ids_ok:
  "well_formed_agent agent \<Longrightarrow> \<exists>xs. allowed_ids agent = Inr xs"
  unfolding well_formed_agent_def entries_ok_def allowed_ids_def Let_def
  by (auto split: jv.splits dest: map_entries_ok)

lemma isAllowed_total:
  "well_formed_agent agent \<Longrightarrow> \<not> nullish tool \<Longrightarrow> \<exists>b. isAllowed agent tool = Inr b"
  using allowed_ids_ok[of agent]
  unfolding isAllowed_def get_prop_def well_formed_agent_def
  by auto

lemma map_entries_nonnull:
  "map_entries ts = Inr xs \<Longrightarrow> list_all (\<lambda>t. \<not> nullish t) ts"
  by (induction ts arbitrary: xs)
    (auto simp: normalize_entry_def get_prop_def split: sum.splits if_splits)

lemma map_entries_error: "map_entries ts = Inl e \<Longrightarrow> e = TypeError"
  by (induction ts)
    (auto simp: normalize_entry_def get_prop_def split: sum.splits if_splits)

lemma isAllowed_error: "isAllowed agent tool = Inl e \<Longrightarrow> e = TypeError"
  unfolding isAllowed_def get_prop_def allowed_ids_def Let_def
  by (auto split: if_splits sum.splits jv.splits dest: map_entries_error)

lemma isAllowed_result_shape:
  assumes "js_prop agent ''id'' \<noteq> JStr orchestrator" and "isAllowed agent tool = Inr b"
  shows "well_formed_agent agent \<and> \<not> nullish tool"
  using assms
  unfolding isAllowed_def get_prop_def allowed_ids_def well_formed_agent_def entries_ok_def Let_def
  by (auto split: if_splits sum.splits jv.splits dest: map_entries_nonnull)



section \<open>The two sources of the catalog\<close>

lemma find_entry_find:
  "list_all (\<lambda>t. \<not> nullish t) ts \<Longrightarrow>
   find_entry ts toolId =
     Inr (case find (\<lambda>t. js_prop t ''id'' = JStr toolId) ts of Some e \<Rightarrow> e | None \<Rightarrow> JUndef)"
  by (induction ts) (auto simp: get_prop_def)

lemma scan_tool_dir_hit:
  assumes "tool_dir_ok fs" and "find (\<lambda>f. startsWith f toolId) (tool_files fs) = Some f"
  shows "scan_tool_dir fs toolId = Some (readYAML fs (path_join TOOL_DIR f))"
proof -
  from assms(2) obtain names where d: "fs TOOL_DIR = Some (Dir names)"
    by (auto simp: tool_files_def split: option.splits node.splits)
  with assms(2) have f: "find (\<lambda>f. startsWith f toolId) names = Some f"
    by (simp add: tool_files_def)
  then have "f \<in> set names" by (auto simp: find_Some_iff)
  with assms(1) d have "f \<noteq> []" by (auto simp: tool_dir_ok_def)
  with d f show ?thesis
    by (simp add: scan_tool_dir_def existsSync_def readdirSync_def)
qed

lemma scan_tool_dir_miss:
  assumes "tool_dir_ok fs" and "find (\<lambda>f. startsWith f toolId) (tool_files fs) = None"
  shows "scan_tool_dir fs toolId = None"
  using assms
  by (auto simp: scan_tool_dir_def existsSync_def readdirSync_def tool_files_def
      tool_dir_ok_def split: option.splits node.splits)

lemma scan_registry_lookup:
  assumes "registry_ok fs"
  shows "(case scan_registry fs toolId of Some r \<Rightarrow> r | None \<Rightarrow> Inl (Tool_not_found toolId))
         = registry_lookup fs toolId"
proof (cases "fs REGISTRY_PATH")
  case None
  then show ?thesis
    by (simp add: scan_registry_def existsSync_def registry_lookup_def registry_entries_def)
next
  case (Some n)
  with assms obtain reg where n: "n = File (Some reg)" and reg: "\<not> nullish reg"
    and ok: "entries_ok (js_prop reg ''registry'')"
    by (auto simp: registry_ok_def split: node.splits option.splits)
  note unfold = scan_registry_def existsSync_def readYAML_def get_prop_def registry_find_def
    registry_lookup_def registry_entries_def opt_prop_def
  show ?thesis
  proof (cases "js_prop reg ''registry''")
    case (JArr ts)
    with ok have all: "list_all (\<lambda>t. \<not> nullish t) ts" by (simp add: entries_ok_def)
    show ?thesis
    proof (cases "find (\<lambda>t. js_prop t ''id'' = JStr toolId) ts")
      case None
      with Some n reg JArr all show ?thesis
        by (simp add: unfold find_entry_find)
    next
      case found: (Some e)
      then have "js_prop e ''id'' = JStr toolId" by (auto simp: find_Some_iff)
      then have "truthy e" by (rule id_truthy)
      with found Some n reg JArr all show ?thesis
        by (simp add: unfold find_entry_find exists_js_def read_js_def split: jv.splits)
    qed
  qed (use Some n reg ok in \<open>simp_all add: unfold entries_ok_def\<close>)
qed

section \<open>Traces of the MCP client\<close>

lemma next_message_quiet:
  "sent_messages (snd (next_message es)) = [] \<and>
   sockets_opened (snd (next_message es)) = 0 \<and>
   listeners_registered (snd (next_message es)) = 0"
  by (induction es rule: next_message.induct) simp_all

lemma next_message_first:
  "\<forall>e \<in> set pre. \<not> is_message e \<Longrightarrow>
   next_message (pre @ WsMessage (Some v) # rest) = (Returned v, [])"
proof (induction pre)
  case Nil
  then show ?case by simp
next
  case (Cons e pre)
  then show ?case by (cases e) simp_all
qed

lemma next_message_none:
  "\<forall>e \<in> set es. \<not> is_message e \<Longrightarrow> next_message es = (Pending, [])"
proof (induction es)
  case Nil
  then show ?case by simp
next
  case (Cons e es)
  then show ?case by (cases e) simp_all
qed

lemma next_message_not_thrown: "fst (next_message es) \<noteq> Threw x"
  by (induction es rule: next_message.induct) simp_all

lemma call_never_rejected: "fst (call c toolId payload) \<noteq> Threw x"
  using next_message_not_thrown[of _ x]
  by (cases c) (simp add: call_def split: prod.splits, metis fst_conv)

lemma on_open_quiet: "sockets_opened (on_open token) = 0"
  by (simp add: on_open_def)

lemma sent_messages_append: "sent_messages (xs @ ys) = sent_messages xs @ sent_messages ys"
  by (induction xs rule: sent_messages.induct) simp_all

lemma sockets_opened_append: "sockets_opened (xs @ ys) = sockets_opened xs + sockets_opened ys"
  by (induction xs rule: sockets_opened.induct) simp_all

lemma read_token_store:
  "fs authFile = Some (File (Some auth)) \<Longrightarrow>
   read_token fs server = Inr (or_js (js_prop (js_prop auth server) ''token'') JNull)"
  by (simp add: read_token_def existsSync_def readYAML_def opt_prop_js_prop)

lemma read_token_configured:
  "store_readable fs \<Longrightarrow>
   read_token fs server = Inr (or_js (configured_token fs server) JNull)"
  by (auto simp: store_readable_def read_token_def existsSync_def readYAML_def
      configured_token_def opt_prop_js_prop or_js_def split: option.splits node.splits)

lemma run_mcp_open:
  assumes "read_token fs (socket_address w server) = Inr token"
    and "new_socket w server = Opens missed es"
  shows "run_mcp fs w server namespace toolId payload =
           (fst (next_message es),
            SocketNew (socket_address w server) # on_open token @
            SocketSend (invoke_message namespace toolId payload) # SocketOnce #
            snd (next_message es))"
  using assms
  by (simp add: run_mcp_def connectMCP_def call_def split: prod.splits)

lemma run_mcp_sockets:
  assumes "read_token fs (socket_address w server) = Inr token"
    and "constructed (new_socket w server)"
  shows "sockets_opened (snd (run_mcp fs w server namespace toolId payload)) = 1"
proof (cases "new_socket w server")
  case (Opens missed es)
  from run_mcp_open[OF assms(1) this] show ?thesis
    by (simp add: sockets_opened_append on_open_quiet next_message_quiet)
qed (use assms in \<open>simp_all add: run_mcp_def connectMCP_def\<close>)

lemma run_mcp_sent:
  assumes "read_token fs (socket_address w server) = Inr token" and "truthy token"
    and "opened (new_socket w server)"
  shows "sent_messages (snd (run_mcp fs w server namespace toolId payload))
           = [auth_message token, invoke_message namespace toolId payload]"
proof -
  from assms(3) obtain missed es where o: "new_socket w server = Opens missed es"
    by (cases "new_socket w server") simp_all
  from run_mcp_open[OF assms(1) o] assms(2) show ?thesis
    by (simp add: on_open_def next_message_quiet)
qed

lemma executeTool_mcp:
  assumes "resolveTool fs toolId = Inr tool"
    and "isAllowed agent tool = Inr True"
    and "js_prop (js_prop tool ''tool'') ''type'' = JStr ''mcp''"
  shows "executeTool fs w agent toolId p =
           run_mcp fs w (js_prop (js_prop tool ''tool'') ''mcpServer'')
             (js_prop (js_prop tool ''tool'') ''entrypoint'') toolId (default_payload p)"
proof -
  from assms(3) have "\<not> nullish tool" "\<not> nullish (js_prop tool ''tool'')"
    by (auto simp: js_prop_nullish)
  with assms show ?thesis
    by (simp add: executeTool_def dispatch_def get_prop_def)
qed

section \<open>Evaluation on the installed project\<close>

lemmas fs_unfold =
  project_fs_def existsSync_def readdirSync_def readYAML_def TOOL_DIR_def REGISTRY_PATH_def
  authFile_def path_join_def startsWith_def

lemma resolve_hello_world: "resolveTool project_fs ''hello-world'' = Inr hello_world_md"
  by (simp add: resolveTool_def scan_tool_dir_def fs_unfold)


lemma resolve_vision: "resolveTool project_fs ''vision-processor'' = Inr vision_processor_md"
  by (simp add: resolveTool_def scan_tool_dir_def fs_unfold)

lemma resolve_ci: "resolveTool project_fs ''ci-trigger'' = Inr ci_trigger_md"
  by (simp add: resolveTool_def scan_tool_dir_def fs_unfold)

lemma orchestrator_passes: "isAllowed bmad_orchestrator tool = Inr True"
  by (simp add: isAllowed_def get_prop_def bmad_orchestrator_def orchestrator_def)

lemma project_token: "read_token project_fs ''wss://mcp.bmad.ai'' = Inr (JStr ''s3cr3t'')"
  by (simp add: read_token_def fs_unfold mcp_auth_def opt_prop_def or_js_def)

section \<open>Access control\<close>

text \<open>
  C1, as the specification states it: an agent that is not the orchestrator asks for a
  tool whose id is not in its normalized allowed set, and \<^verbatim>\<open>executeTool\<close> fails with the
  access denial. The agent \<open>sloppy\<close> has a null entry in its allowed list and asks for
  \<^verbatim>\<open>hello-world\<close>, which is not in its normalized allowed set: the call fails with a
  TypeError.
\<close>

theorem denial_error_counterexample:
  "resolveTool project_fs ''hello-world'' = Inr hello_world_md \<and>
   js_prop sloppy ''id'' = JStr ''sloppy'' \<and>
   tool_id hello_world_md = JStr ''hello-world'' \<and>
   spec_allowed sloppy = {JStr ''system-analyzer'', JNull} \<and>
   executeTool project_fs offline sloppy ''hello-world'' (JObj []) = (Threw TypeError, [])"
proof -
  have "isAllowed sloppy hello_world_md = Inl TypeError"
    by (simp add: isAllowed_def get_prop_def sloppy_def orchestrator_def allowed_ids_def
        opt_prop_def normalize_entry_def or_js_def)
  then have "executeTool project_fs offline sloppy ''hello-world'' (JObj []) = (Threw TypeError, [])"
    by (simp add: executeTool_def resolve_hello_world)
  moreover have "spec_allowed sloppy = {JStr ''system-analyzer'', JNull}"
    by (simp add: spec_allowed_def spec_normalize_def opt_prop_def sloppy_def)
  moreover have "tool_id hello_world_md = JStr ''hello-world''"
    by (simp add: tool_id_def opt_prop_def hello_world_md_def)
  moreover have "js_prop sloppy ''id'' = JStr ''sloppy''"
    by (simp add: sloppy_def)
  ultimately show ?thesis using resolve_hello_world by blast
qed

text \<open>
  C1, amended. An agent that is not the orchestrator asks for a tool whose id is not in
  its normalized allowed set: \<^verbatim>\<open>executeTool\<close> throws and reaches no transport (the trace
  has no import, no request and no socket). The error is the access denial carrying the
  agent's id and \<open>toolId\<close> when the agent profile is well formed, the definition is not
  null and the agent's id converts to a string; otherwise it is a TypeError.
\<close>

theorem denied_without_transport:
  assumes "resolveTool fs toolId = Inr tool"
    and "js_prop agent ''id'' \<noteq> JStr orchestrator"
    and "tool_id tool \<notin> spec_allowed agent"
  shows "executeTool fs w agent toolId payload =
           (Threw (if well_formed_agent agent \<and> \<not> nullish tool \<and>
                      \<not> tostring_fails (js_prop agent ''id'')
                   then Access_denied (js_prop agent ''id'') toolId
                   else TypeError), [])"
proof (cases "isAllowed agent tool")
  case (Inl e)
  then have "e = TypeError" by (rule isAllowed_error)
  moreover from Inl isAllowed_total[of agent tool]
  have "\<not> (well_formed_agent agent \<and> \<not> nullish tool)" by auto
  ultimately show ?thesis using assms(1) Inl by (auto simp: executeTool_def)
next
  case (Inr b)
  with assms(2,3) isAllowed_True_spec[of agent tool] have "\<not> b" by auto
  moreover from isAllowed_result_shape[OF assms(2) Inr]
  have "well_formed_agent agent \<and> \<not> nullish tool" .
  ultimately show ?thesis using assms(1) Inr
    by (simp add: executeTool_def throw_error_def)
qed

theorem denied_without_transport_witness:
  "resolveTool project_fs ''hello-world'' = Inr hello_world_md \<and>
   js_prop analyst ''id'' \<noteq> JStr orchestrator \<and>
   tool_id hello_world_md \<notin> spec_allowed analyst \<and>
   well_formed_agent analyst \<and> \<not> nullish hello_world_md \<and>
   \<not> tostring_fails (js_prop analyst ''id'') \<and>
   executeTool project_fs offline analyst ''hello-world'' JUndef
     = (Threw (Access_denied (JStr ''analyst'') ''hello-world''), [])"
proof -
  have r: "resolveTool project_fs ''hello-world'' = Inr hello_world_md"
    by (rule resolve_hello_world)
  have a: "js_prop analyst ''id'' \<noteq> JStr orchestrator"
    by (simp add: analyst_def orchestrator_def)
  have t: "tool_id hello_world_md \<notin> spec_allowed analyst"
    by (simp add: tool_id_def spec_allowed_def spec_normalize_def opt_prop_def
        hello_world_md_def analyst_def)
  have wf: "well_formed_agent analyst \<and> \<not> nullish hello_world_md \<and>
            \<not> tostring_fails (js_prop analyst ''id'')"
    by (simp add: well_formed_agent_def entries_ok_def opt_prop_def analyst_def
        hello_world_md_def)
  have i: "js_prop analyst ''id'' = JStr ''analyst''"
    by (simp add: analyst_def)
  from denied_without_transport [OF r a t, of offline JUndef] wf i
  have "executeTool project_fs offline analyst ''hello-world'' JUndef
          = (Threw (Access_denied (JStr ''analyst'') ''hello-world''), [])"
    by simp
  with r a t wf show ?thesis by simp
qed

text \<open>
  C2. An agent whose id is the orchestrator identifier is allowed every tool, whatever
  its allowed list holds and whatever the tool is.
\<close>

theorem orchestrator_always_allowed:
  "js_prop agent ''id'' = JStr orchestrator \<Longrightarrow> isAllowed agent tool = Inr True"
  unfolding isAllowed_def get_prop_def
  by (auto simp: js_prop_nullish)

theorem orchestrator_always_allowed_witness:
  "js_prop bmad_orchestrator ''id'' = JStr orchestrator \<and>
   isAllowed bmad_orchestrator JNull = Inr True"
  using orchestrator_always_allowed [of bmad_orchestrator JNull]
  by (simp add: orchestrator_def bmad_orchestrator_def)

text \<open>
  C10. An agent profile that is not the orchestrator's and has no tools section, or no
  allowed list in it, is denied every tool definition: \<^verbatim>\<open>isAllowed\<close> returns false and
  raises nothing.
\<close>

theorem isAllowed_without_allowed_list:
  assumes "\<not> nullish agent"
    and "js_prop agent ''id'' \<noteq> JStr orchestrator"
    and "nullish (js_prop agent ''tools'') \<or>
         nullish (js_prop (js_prop agent ''tools'') ''allowed'')"
    and "\<not> nullish tool"
  shows "isAllowed agent tool = Inr False"
  using assms unfolding isAllowed_def get_prop_def allowed_ids_def opt_prop_def Let_def
  by (auto simp: array_includes_def)

theorem isAllowed_without_allowed_list_witness:
  "\<not> nullish dev \<and> js_prop dev ''id'' \<noteq> JStr orchestrator \<and>
   nullish (js_prop dev ''tools'') \<and> \<not> nullish hello_world_md \<and>
   isAllowed dev hello_world_md = Inr False"
  using isAllowed_without_allowed_list [of dev hello_world_md]
  by (simp add: orchestrator_def hello_world_md_def dev_def)



section \<open>The catalog\<close>

text \<open>
  C5, as the specification states it: when no file name matches, \<^verbatim>\<open>resolveTool\<close> returns
  the parse of the file referenced by an entry whose id equals \<open>toolId\<close> and whose file
  exists. In the store \<open>duplicate_fs\<close> no file name starts with \<^verbatim>\<open>api-linter\<close>, the
  registry has an entry with that id whose file exists and parses, and \<^verbatim>\<open>resolveTool\<close>
  fails with the tool-not-found error: it looks at the first entry with the id only,
  and the file of that one is gone.
\<close>

theorem first_entry_counterexample:
  "find (\<lambda>f. startsWith f ''api-linter'') (tool_files duplicate_fs) = None \<and>
   registry_entries duplicate_fs =
     [JObj [(''id'', JStr ''api-linter''), (''file'', JStr ''old/api-linter.md'')],
      JObj [(''id'', JStr ''api-linter''), (''file'', JStr ''vendor/api-linter.md'')]] \<and>
   existsSync duplicate_fs ''vendor/api-linter.md'' \<and>
   readYAML duplicate_fs ''vendor/api-linter.md'' = Inr api_linter_md \<and>
   resolveTool duplicate_fs ''api-linter'' = Inl (Tool_not_found ''api-linter'')"
  by (simp add: tool_files_def registry_entries_def resolveTool_def scan_tool_dir_def
      scan_registry_def registry_find_def get_prop_def opt_prop_def exists_js_def
      duplicate_fs_def existsSync_def readdirSync_def readYAML_def TOOL_DIR_def
      REGISTRY_PATH_def path_join_def startsWith_def)

text \<open>
  C5, amended. With a tool-definitions directory that is absent or a directory,
  \<^verbatim>\<open>resolveTool\<close> looks at the directory first: if some file name starts with \<open>toolId\<close>,
  it returns the parse of the first such file, whatever the registry holds. Only if no
  file name does, it consults the registry index (absent, or a document whose list is
  absent or an array without null entries): it takes the first entry whose id equals
  \<open>toolId\<close> and returns the parse of the file of that entry if the file exists; with no
  index, no such entry, or the file of the first such entry missing, it fails with the
  tool-not-found error.
\<close>

theorem resolveTool_order:
  assumes "tool_dir_ok fs"
  shows "((\<exists>f \<in> set (tool_files fs). startsWith f toolId) \<longrightarrow>
            (\<exists>f. find (\<lambda>f. startsWith f toolId) (tool_files fs) = Some f \<and>
                 resolveTool fs toolId = readYAML fs (path_join TOOL_DIR f))) \<and>
         ((\<forall>f \<in> set (tool_files fs). \<not> startsWith f toolId) \<and> registry_ok fs \<longrightarrow>
            resolveTool fs toolId = registry_lookup fs toolId)"
proof (intro conjI impI)
  assume "\<exists>f \<in> set (tool_files fs). startsWith f toolId"
  then obtain f where f: "find (\<lambda>f. startsWith f toolId) (tool_files fs) = Some f"
    by (cases "find (\<lambda>f. startsWith f toolId) (tool_files fs)") (auto simp: find_None_iff)
  from scan_tool_dir_hit[OF assms f]
  have "resolveTool fs toolId = readYAML fs (path_join TOOL_DIR f)"
    by (simp add: resolveTool_def)
  with f show "\<exists>f. find (\<lambda>f. startsWith f toolId) (tool_files fs) = Some f \<and>
                 resolveTool fs toolId = readYAML fs (path_join TOOL_DIR f)"
    by blast
next
  assume a: "(\<forall>f \<in> set (tool_files fs). \<not> startsWith f toolId) \<and> registry_ok fs"
  then have "find (\<lambda>f. startsWith f toolId) (tool_files fs) = None"
    by (simp add: find_None_iff)
  from scan_tool_dir_miss[OF assms this] scan_registry_lookup[of fs toolId] a
  show "resolveTool fs toolId = registry_lookup fs toolId"
    by (simp add: resolveTool_def)
qed

theorem resolveTool_order_witness:
  "tool_dir_ok project_fs \<and> registry_ok project_fs \<and>
   (\<exists>f \<in> set (tool_files project_fs). startsWith f ''vision'') \<and>
   resolveTool project_fs ''vision'' = Inr vision_processor_md \<and>
   find (\<lambda>f. startsWith f ''system-analyzer'') (tool_files project_fs) = None \<and>
   resolveTool project_fs ''system-analyzer'' = Inr system_analyzer_md \<and>
   find (\<lambda>f. startsWith f ''api-linter'') (tool_files project_fs) = None \<and>
   resolveTool project_fs ''api-linter'' = Inl (Tool_not_found ''api-linter'')"
proof -
  have wf: "tool_dir_ok project_fs"
    by (simp add: tool_dir_ok_def fs_unfold)
  have ok: "registry_ok project_fs"
    by (simp add: registry_ok_def entries_ok_def project_registry_def fs_unfold)
  have files: "tool_files project_fs = [''ci-trigger.md'', ''hello-world.md'', ''vision-processor.md'']"
    by (simp add: tool_files_def fs_unfold)
  have entries: "registry_entries project_fs =
      [JObj [(''id'', JStr ''hello-world''), (''file'', JStr ''.bmad-core/tools/hello-world.md'')],
       JObj [(''id'', JStr ''system-analyzer''), (''file'', JStr ''vendor/system-analyzer.md'')],
       JObj [(''id'', JStr ''api-linter''), (''file'', JStr ''vendor/api-linter.md'')]]"
    by (simp add: registry_entries_def project_registry_def opt_prop_def fs_unfold)
  have v: "\<exists>f \<in> set (tool_files project_fs). startsWith f ''vision''"
    by (simp add: files startsWith_def)
  have s: "\<forall>f \<in> set (tool_files project_fs). \<not> startsWith f ''system-analyzer''"
    by (simp add: files startsWith_def)
  have l: "\<forall>f \<in> set (tool_files project_fs). \<not> startsWith f ''api-linter''"
    by (simp add: files startsWith_def)
  have "resolveTool project_fs ''vision'' = Inr vision_processor_md"
  proof -
    from resolveTool_order [OF wf, of "''vision''"] v
    obtain f where f: "find (\<lambda>f. startsWith f ''vision'') (tool_files project_fs) = Some f"
      and r: "resolveTool project_fs ''vision'' = readYAML project_fs (path_join TOOL_DIR f)"
      by blast
    from f have "f = ''vision-processor.md''"
      by (simp add: files startsWith_def)
    with r show ?thesis by (simp add: fs_unfold)
  qed
  moreover have "resolveTool project_fs ''system-analyzer'' = Inr system_analyzer_md"
  proof -
    have "registry_lookup project_fs ''system-analyzer'' = Inr system_analyzer_md"
      unfolding registry_lookup_def entries by (simp add: fs_unfold)
    with resolveTool_order [OF wf, of "''system-analyzer''"] s ok show ?thesis by simp
  qed
  moreover have "resolveTool project_fs ''api-linter'' = Inl (Tool_not_found ''api-linter'')"
  proof -
    have "registry_lookup project_fs ''api-linter'' = Inl (Tool_not_found ''api-linter'')"
      unfolding registry_lookup_def entries by (simp add: fs_unfold)
    with resolveTool_order [OF wf, of "''api-linter''"] l ok show ?thesis by simp
  qed
  moreover have "find (\<lambda>f. startsWith f ''system-analyzer'') (tool_files project_fs) = None"
    and "find (\<lambda>f. startsWith f ''api-linter'') (tool_files project_fs) = None"
    by (simp_all add: files startsWith_def)
  ultimately show ?thesis using wf ok v by blast
qed

section \<open>The remote adapter\<close>

text \<open>
  C6. For a tool of type remote that the agent is allowed, \<^verbatim>\<open>executeTool\<close> posts the
  payload to the entrypoint of the tool, once. When the response comes with a status
  outside 200..299 the call fails with the remote-failure error carrying that status;
  with a status inside, the call settles as the JSON decoding of the response body does.
\<close>

theorem remote_status:
  assumes "resolveTool fs toolId = Inr tool"
    and "isAllowed agent tool = Inr True"
    and "js_prop (js_prop tool ''tool'') ''type'' = JStr ''remote''"
    and "fetch w (js_prop (js_prop tool ''tool'') ''entrypoint'') (default_payload payload)
           = Returned res"
  shows "snd (executeTool fs w agent toolId payload)
           = [FetchCall (js_prop (js_prop tool ''tool'') ''entrypoint'') (default_payload payload)] \<and>
         (\<not> (200 \<le> res_status res \<and> res_status res < 300) \<longrightarrow>
            fst (executeTool fs w agent toolId payload)
              = Threw (Remote_tool_failed toolId (res_status res))) \<and>
         (200 \<le> res_status res \<and> res_status res < 300 \<longrightarrow>
            fst (executeTool fs w agent toolId payload) = res_json res)"
proof -
  from assms(3) have "\<not> nullish tool" "\<not> nullish (js_prop tool ''tool'')"
    by (auto simp: js_prop_nullish)
  with assms show ?thesis
    by (simp add: executeTool_def dispatch_def get_prop_def run_remote_def res_ok_def)
qed

theorem remote_status_witness:
  "resolveTool project_fs ''ci-trigger'' = Inr ci_trigger_md \<and>
   isAllowed bmad_orchestrator ci_trigger_md = Inr True \<and>
   js_prop (js_prop ci_trigger_md ''tool'') ''type'' = JStr ''remote'' \<and>
   executeTool project_fs failing_ci bmad_orchestrator ''ci-trigger'' (JObj [(''branch'', JStr ''main'')])
     = (Threw (Remote_tool_failed ''ci-trigger'' 500),
        [FetchCall (JStr ''https://ci.bmad.ai/trigger'') (JObj [(''branch'', JStr ''main'')])]) \<and>
   executeTool project_fs working_ci bmad_orchestrator ''ci-trigger'' (JObj [(''branch'', JStr ''main'')])
     = (Returned (JObj [(''queued'', JBool True)]),
        [FetchCall (JStr ''https://ci.bmad.ai/trigger'') (JObj [(''branch'', JStr ''main'')])])"
proof -
  have t: "js_prop (js_prop ci_trigger_md ''tool'') ''type'' = JStr ''remote''"
    by (simp add: ci_trigger_md_def)
  have e: "js_prop (js_prop ci_trigger_md ''tool'') ''entrypoint'' = JStr ''https://ci.bmad.ai/trigger''"
    by (simp add: ci_trigger_md_def)
  have p: "default_payload (JObj [(''branch'', JStr ''main'')]) = JObj [(''branch'', JStr ''main'')]"
    by (simp add: default_payload_def)
  have f5: "fetch failing_ci (js_prop (js_prop ci_trigger_md ''tool'') ''entrypoint'')
              (default_payload (JObj [(''branch'', JStr ''main'')]))
            = Returned \<lparr> res_status = 500, res_json = Returned (JObj [(''error'', JStr ''boom'')]) \<rparr>"
    by (simp add: failing_ci_def offline_def)
  have f2: "fetch working_ci (js_prop (js_prop ci_trigger_md ''tool'') ''entrypoint'')
              (default_payload (JObj [(''branch'', JStr ''main'')]))
            = Returned \<lparr> res_status = 200, res_json = Returned (JObj [(''queued'', JBool True)]) \<rparr>"
    by (simp add: working_ci_def offline_def)
  from remote_status [OF resolve_ci orchestrator_passes t f5]
       remote_status [OF resolve_ci orchestrator_passes t f2]
       resolve_ci orchestrator_passes t
  show ?thesis by (simp add: e p prod_eq_iff)
qed

section \<open>The MCP client\<close>

text \<open>
  C7. A call sends one message, the encoding of the mapping with the four fields
  \<^verbatim>\<open>action: "invoke"\<close>, \<^verbatim>\<open>namespace\<close>, \<^verbatim>\<open>toolId\<close> and \<^verbatim>\<open>payload\<close>, and registers one
  listener for the next message of the socket. The call resolves with the decoded body of
  the first message that arrives, whatever that body is: the request carries no
  correlation identifier and the response is not matched against the request.
\<close>

theorem call_single_message:
  "sent_messages (snd (call (Client namespace es) toolId payload))
     = [JObj [(''action'', JStr ''invoke''), (''namespace'', namespace),
              (''toolId'', JStr toolId), (''payload'', payload)]] \<and>
   listeners_registered (snd (call (Client namespace es) toolId payload)) = 1 \<and>
   (es = pre @ WsMessage (Some v) # rest \<and> (\<forall>e \<in> set pre. \<not> is_message e) \<longrightarrow>
      fst (call (Client namespace es) toolId payload) = Returned v)"
proof -
  obtain r tr where nm: "next_message es = (r, tr)"
    by (cases "next_message es")
  with next_message_quiet[of es]
  have quiet: "sent_messages tr = []" "listeners_registered tr = 0"
    by simp_all
  have c: "call (Client namespace es) toolId payload
             = (r, SocketSend (invoke_message namespace toolId payload) # SocketOnce # tr)"
    using nm by (simp add: call_def)
  have "r = Returned v"
    if "es = pre @ WsMessage (Some v) # rest" and "\<forall>e \<in> set pre. \<not> is_message e"
    using that nm next_message_first[of pre v rest] by simp
  then have "es = pre @ WsMessage (Some v) # rest \<and> (\<forall>e \<in> set pre. \<not> is_message e) \<longrightarrow>
      fst (call (Client namespace es) toolId payload) = Returned v"
    unfolding c by simp
  moreover have "sent_messages (snd (call (Client namespace es) toolId payload))
     = [JObj [(''action'', JStr ''invoke''), (''namespace'', namespace),
              (''toolId'', JStr toolId), (''payload'', payload)]]"
    unfolding c by (simp add: quiet invoke_message_def)
  moreover have "listeners_registered (snd (call (Client namespace es) toolId payload)) = 1"
    unfolding c by (simp add: quiet)
  ultimately show ?thesis by blast
qed

theorem call_single_message_witness:
  "call (Client (JStr ''vision-tools'')
           [WsClose, WsMessage (Some (JObj [(''received'', JObj [])])), WsMessage (Some JNull)])
        ''vision-processor'' (JObj [])
     = (Returned (JObj [(''received'', JObj [])]),
        [SocketSend (JObj [(''action'', JStr ''invoke''), (''namespace'', JStr ''vision-tools''),
                           (''toolId'', JStr ''vision-processor''), (''payload'', JObj [])]),
         SocketOnce])"
proof -
  have "fst (call (Client (JStr ''vision-tools'')
           [WsClose, WsMessage (Some (JObj [(''received'', JObj [])])), WsMessage (Some JNull)])
        ''vision-processor'' (JObj [])) = Returned (JObj [(''received'', JObj [])])"
    using call_single_message [of "JStr ''vision-tools''"
        "[WsClose, WsMessage (Some (JObj [(''received'', JObj [])])), WsMessage (Some JNull)]"
        "''vision-processor''" "JObj []" "[WsClose]" "JObj [(''received'', JObj [])]"
        "[WsMessage (Some JNull)]"]
    by simp
  then show ?thesis
    by (simp add: call_def invoke_message_def)
qed

text \<open>
  C8. When the credential store holds a token for the server, the messages sent on a
  new connection are none (the socket never opened) or the authentication message
  followed by the invoke message: an invoke message is never the first. No
  acknowledgment is awaited: as soon as the socket opens the authentication message, the
  invoke message and the registration of the listener follow one another, whatever the
  socket emits in between and delivers afterwards.
\<close>

theorem auth_before_invoke:
  assumes "fs authFile = Some (File (Some auth))"
    and "js_prop (js_prop auth (socket_address w server)) ''token'' = token"
    and "truthy token"
  shows "(sent_messages (snd (run_mcp fs w server namespace toolId payload)) = [] \<or>
          sent_messages (snd (run_mcp fs w server namespace toolId payload))
            = [JObj [(''action'', JStr ''auth''), (''token'', token)],
               invoke_message namespace toolId payload]) \<and>
         (new_socket w server = Opens missed es \<longrightarrow>
            take 4 (snd (run_mcp fs w server namespace toolId payload))
              = [SocketNew (socket_address w server),
                 SocketSend (JObj [(''action'', JStr ''auth''), (''token'', token)]),
                 SocketSend (invoke_message namespace toolId payload),
                 SocketOnce])"
proof -
  from assms have tok: "read_token fs (socket_address w server) = Inr token"
    by (simp add: read_token_store or_js_def)
  show ?thesis
  proof (cases "new_socket w server")
    case (Opens missed' es')
    from run_mcp_open[OF tok this, of namespace toolId payload] assms(3) Opens
    show ?thesis
      using next_message_quiet[of es']
      by (simp add: on_open_def auth_message_def)
  qed (use tok in \<open>simp_all add: run_mcp_def connectMCP_def\<close>)
qed

theorem auth_before_invoke_witness:
  "project_fs authFile = Some (File (Some mcp_auth)) \<and>
   js_prop (js_prop mcp_auth (socket_address echo_server (JStr ''wss://mcp.bmad.ai''))) ''token''
     = JStr ''s3cr3t'' \<and>
   truthy (JStr ''s3cr3t'') \<and>
   new_socket echo_server (JStr ''wss://mcp.bmad.ai'')
     = Opens [WsMessage (Some (JStr ''ready''))]
             [WsMessage (Some (JObj [(''received'', JObj [])]))] \<and>
   take 4 (snd (run_mcp project_fs echo_server (JStr ''wss://mcp.bmad.ai'') (JStr ''vision-tools'')
                  ''vision-processor'' (JObj [])))
     = [SocketNew ''wss://mcp.bmad.ai'',
        SocketSend (JObj [(''action'', JStr ''auth''), (''token'', JStr ''s3cr3t'')]),
        SocketSend (JObj [(''action'', JStr ''invoke''), (''namespace'', JStr ''vision-tools''),
                          (''toolId'', JStr ''vision-processor''), (''payload'', JObj [])]),
        SocketOnce]"
proof -
  have a: "project_fs authFile = Some (File (Some mcp_auth))"
    by (simp add: fs_unfold)
  have t: "js_prop (js_prop mcp_auth (socket_address echo_server (JStr ''wss://mcp.bmad.ai'')))
             ''token'' = JStr ''s3cr3t''"
    by (simp add: mcp_auth_def socket_address_def)
  have tr: "truthy (JStr ''s3cr3t'')" by simp
  have s: "new_socket echo_server (JStr ''wss://mcp.bmad.ai'')
             = Opens [WsMessage (Some (JStr ''ready''))]
                     [WsMessage (Some (JObj [(''received'', JObj [])]))]"
    by (simp add: echo_server_def offline_def)
  from auth_before_invoke [where fs = project_fs and auth = mcp_auth and w = echo_server
      and server = "JStr ''wss://mcp.bmad.ai''" and token = "JStr ''s3cr3t''"
      and namespace = "JStr ''vision-tools''" and toolId = "''vision-processor''"
      and payload = "JObj []" and missed = "[WsMessage (Some (JStr ''ready''))]"
      and es = "[WsMessage (Some (JObj [(''received'', JObj [])]))]",
      OF a t tr] s
  have "take 4 (snd (run_mcp project_fs echo_server (JStr ''wss://mcp.bmad.ai'')
                  (JStr ''vision-tools'') ''vision-processor'' (JObj [])))
     = [SocketNew ''wss://mcp.bmad.ai'',
        SocketSend (JObj [(''action'', JStr ''auth''), (''token'', JStr ''s3cr3t'')]),
        SocketSend (JObj [(''action'', JStr ''invoke''), (''namespace'', JStr ''vision-tools''),
                          (''toolId'', JStr ''vision-processor''), (''payload'', JObj [])]),
        SocketOnce]"
    by (simp add: socket_address_def invoke_message_def)
  with a t tr s show ?thesis by blast
qed

text \<open>
  C3, as the specification states it: a session is kept per server and reused, so that
  two calls to tools of one \<^verbatim>\<open>mcpServer\<close> open exactly one socket. The client keeps no
  session: on the installed project two calls to the same tool open two sockets and
  authenticate twice.
\<close>

theorem session_reuse_counterexample:
  "sockets_opened
     (snd (executeTool project_fs echo_server bmad_orchestrator ''vision-processor'' (JObj [])) @
      snd (executeTool project_fs echo_server bmad_orchestrator ''vision-processor'' (JObj [])))
     = 2 \<and>
   sent_messages
     (snd (executeTool project_fs echo_server bmad_orchestrator ''vision-processor'' (JObj [])) @
      snd (executeTool project_fs echo_server bmad_orchestrator ''vision-processor'' (JObj [])))
     = [auth_message (JStr ''s3cr3t''),
        invoke_message (JStr ''vision-tools'') ''vision-processor'' (JObj []),
        auth_message (JStr ''s3cr3t''),
        invoke_message (JStr ''vision-tools'') ''vision-processor'' (JObj [])]"
proof -
  have t: "js_prop (js_prop vision_processor_md ''tool'') ''type'' = JStr ''mcp''"
    by (simp add: vision_processor_md_def)
  have s: "new_socket echo_server (JStr ''wss://mcp.bmad.ai'')
             = Opens [WsMessage (Some (JStr ''ready''))]
                     [WsMessage (Some (JObj [(''received'', JObj [])]))]"
    by (simp add: echo_server_def offline_def)
  have "executeTool project_fs echo_server bmad_orchestrator ''vision-processor'' (JObj [])
          = (Returned (JObj [(''received'', JObj [])]),
             [SocketNew ''wss://mcp.bmad.ai'', SocketSend (auth_message (JStr ''s3cr3t'')),
              SocketSend (invoke_message (JStr ''vision-tools'') ''vision-processor'' (JObj [])),
              SocketOnce])"
    unfolding executeTool_mcp [OF resolve_vision orchestrator_passes t]
    by (simp add: vision_processor_md_def default_payload_def run_mcp_def connectMCP_def
        socket_address_def project_token s on_open_def call_def)
  then show ?thesis by simp
qed

text \<open>
  C3, amended. The client keeps no session. Every call of \<^verbatim>\<open>executeTool\<close> on an MCP tool
  constructs a socket of its own for the tool's server (given a readable credential
  store and a server the constructor accepts), so two calls to tools of one
  \<^verbatim>\<open>mcpServer\<close> open two sockets; when a token is configured for the server and the
  sockets open, each call sends the authentication message again before its invoke
  message.
\<close>

theorem every_call_opens_socket:
  assumes "resolveTool fs toolId1 = Inr tool1" and "resolveTool fs toolId2 = Inr tool2"
    and "isAllowed agent tool1 = Inr True" and "isAllowed agent tool2 = Inr True"
    and "js_prop (js_prop tool1 ''tool'') ''type'' = JStr ''mcp''"
    and "js_prop (js_prop tool2 ''tool'') ''type'' = JStr ''mcp''"
    and "js_prop (js_prop tool1 ''tool'') ''mcpServer'' = JStr server"
    and "js_prop (js_prop tool2 ''tool'') ''mcpServer'' = JStr server"
    and "store_readable fs"
    and "constructed (new_socket w1 (JStr server))"
    and "constructed (new_socket w2 (JStr server))"
  shows "sockets_opened (snd (executeTool fs w1 agent toolId1 p1) @
                         snd (executeTool fs w2 agent toolId2 p2)) = 2 \<and>
         (truthy (configured_token fs server) \<and>
          opened (new_socket w1 (JStr server)) \<and> opened (new_socket w2 (JStr server)) \<longrightarrow>
            sent_messages (snd (executeTool fs w1 agent toolId1 p1) @
                           snd (executeTool fs w2 agent toolId2 p2))
              = [auth_message (configured_token fs server),
                 invoke_message (js_prop (js_prop tool1 ''tool'') ''entrypoint'') toolId1
                   (default_payload p1),
                 auth_message (configured_token fs server),
                 invoke_message (js_prop (js_prop tool2 ''tool'') ''entrypoint'') toolId2
                   (default_payload p2)])"
proof -
  have a: "socket_address w (JStr server) = server" for w
    by (simp add: socket_address_def)
  have tok: "read_token fs server = Inr (or_js (configured_token fs server) JNull)"
    by (rule read_token_configured[OF assms(9)])
  have e1: "executeTool fs w1 agent toolId1 p1 =
      run_mcp fs w1 (JStr server) (js_prop (js_prop tool1 ''tool'') ''entrypoint'') toolId1
        (default_payload p1)"
    using executeTool_mcp [OF assms(1,3,5)] assms(7) by simp
  have e2: "executeTool fs w2 agent toolId2 p2 =
      run_mcp fs w2 (JStr server) (js_prop (js_prop tool2 ''tool'') ''entrypoint'') toolId2
        (default_payload p2)"
    using executeTool_mcp [OF assms(2,4,6)] assms(8) by simp
  have "sockets_opened (snd (executeTool fs w1 agent toolId1 p1)) = 1"
    unfolding e1 by (rule run_mcp_sockets[where token = "or_js (configured_token fs server) JNull"])
      (simp_all add: a tok assms(10))
  moreover have "sockets_opened (snd (executeTool fs w2 agent toolId2 p2)) = 1"
    unfolding e2 by (rule run_mcp_sockets[where token = "or_js (configured_token fs server) JNull"])
      (simp_all add: a tok assms(11))
  moreover have "sent_messages (snd (executeTool fs w1 agent toolId1 p1) @
                           snd (executeTool fs w2 agent toolId2 p2))
              = [auth_message (configured_token fs server),
                 invoke_message (js_prop (js_prop tool1 ''tool'') ''entrypoint'') toolId1
                   (default_payload p1),
                 auth_message (configured_token fs server),
                 invoke_message (js_prop (js_prop tool2 ''tool'') ''entrypoint'') toolId2
                   (default_payload p2)]"
    if t: "truthy (configured_token fs server)"
      and o1: "opened (new_socket w1 (JStr server))" and o2: "opened (new_socket w2 (JStr server))"
  proof -
    from t have tok': "read_token fs server = Inr (configured_token fs server)"
      using tok by (simp add: or_js_def)
    have "sent_messages (snd (executeTool fs w1 agent toolId1 p1))
            = [auth_message (configured_token fs server),
               invoke_message (js_prop (js_prop tool1 ''tool'') ''entrypoint'') toolId1
                 (default_payload p1)]"
      unfolding e1 by (rule run_mcp_sent) (simp_all add: a tok' t o1)
    moreover have "sent_messages (snd (executeTool fs w2 agent toolId2 p2))
            = [auth_message (configured_token fs server),
               invoke_message (js_prop (js_prop tool2 ''tool'') ''entrypoint'') toolId2
                 (default_payload p2)]"
      unfolding e2 by (rule run_mcp_sent) (simp_all add: a tok' t o2)
    ultimately show ?thesis by (simp add: sent_messages_append)
  qed
  ultimately show ?thesis by (simp add: sockets_opened_append)
qed

theorem every_call_opens_socket_witness:
  "resolveTool project_fs ''vision-processor'' = Inr vision_processor_md \<and>
   resolveTool project_fs ''vision'' = Inr vision_processor_md \<and>
   isAllowed bmad_orchestrator vision_processor_md = Inr True \<and>
   js_prop (js_prop vision_processor_md ''tool'') ''type'' = JStr ''mcp'' \<and>
   js_prop (js_prop vision_processor_md ''tool'') ''mcpServer'' = JStr ''wss://mcp.bmad.ai'' \<and>
   store_readable project_fs \<and>
   configured_token project_fs ''wss://mcp.bmad.ai'' = JStr ''s3cr3t'' \<and>
   opened (new_socket echo_server (JStr ''wss://mcp.bmad.ai'')) \<and>
   opened (new_socket broken_server (JStr ''wss://mcp.bmad.ai'')) \<and>
   sockets_opened
     (snd (executeTool project_fs echo_server bmad_orchestrator ''vision-processor'' JUndef) @
      snd (executeTool project_fs broken_server bmad_orchestrator ''vision'' JUndef)) = 2 \<and>
   sent_messages
     (snd (executeTool project_fs echo_server bmad_orchestrator ''vision-processor'' JUndef) @
      snd (executeTool project_fs broken_server bmad_orchestrator ''vision'' JUndef))
     = [auth_message (JStr ''s3cr3t''),
        invoke_message (JStr ''vision-tools'') ''vision-processor'' (JObj []),
        auth_message (JStr ''s3cr3t''),
        invoke_message (JStr ''vision-tools'') ''vision'' (JObj [])]"
proof -
  have r2: "resolveTool project_fs ''vision'' = Inr vision_processor_md"
    by (simp add: resolveTool_def scan_tool_dir_def fs_unfold)
  have t: "js_prop (js_prop vision_processor_md ''tool'') ''type'' = JStr ''mcp''"
    by (simp add: vision_processor_md_def)
  have m: "js_prop (js_prop vision_processor_md ''tool'') ''mcpServer'' = JStr ''wss://mcp.bmad.ai''"
    by (simp add: vision_processor_md_def)
  have n: "js_prop (js_prop vision_processor_md ''tool'') ''entrypoint'' = JStr ''vision-tools''"
    by (simp add: vision_processor_md_def)
  have sr: "store_readable project_fs"
    by (simp add: store_readable_def fs_unfold)
  have ct: "configured_token project_fs ''wss://mcp.bmad.ai'' = JStr ''s3cr3t''"
    by (simp add: configured_token_def mcp_auth_def fs_unfold)
  have o1: "opened (new_socket echo_server (JStr ''wss://mcp.bmad.ai''))"
    by (simp add: echo_server_def offline_def)
  have o2: "opened (new_socket broken_server (JStr ''wss://mcp.bmad.ai''))"
    by (simp add: broken_server_def offline_def)
  have c1: "constructed (new_socket echo_server (JStr ''wss://mcp.bmad.ai''))"
    by (simp add: echo_server_def offline_def)
  have c2: "constructed (new_socket broken_server (JStr ''wss://mcp.bmad.ai''))"
    by (simp add: broken_server_def offline_def)
  from every_call_opens_socket [OF resolve_vision r2 orchestrator_passes orchestrator_passes
      t t m m sr c1 c2, of JUndef JUndef] o1 o2
  have "sockets_opened
     (snd (executeTool project_fs echo_server bmad_orchestrator ''vision-processor'' JUndef) @
      snd (executeTool project_fs broken_server bmad_orchestrator ''vision'' JUndef)) = 2 \<and>
   sent_messages
     (snd (executeTool project_fs echo_server bmad_orchestrator ''vision-processor'' JUndef) @
      snd (executeTool project_fs broken_server bmad_orchestrator ''vision'' JUndef))
     = [auth_message (JStr ''s3cr3t''),
        invoke_message (JStr ''vision-tools'') ''vision-processor'' (JObj []),
        auth_message (JStr ''s3cr3t''),
        invoke_message (JStr ''vision-tools'') ''vision'' (JObj [])]"
    by (simp add: ct n default_payload_def)
  with resolve_vision r2 orchestrator_passes t m sr ct o1 o2 show ?thesis by blast
qed

text \<open>
  C4. The specification has a socket error reject the pending result of a call in
  flight. On the installed project, with a server whose socket opens and then raises an
  error and closes, the invoke message is sent and the call is left pending: nothing
  rejects it.
\<close>

theorem socket_error_leaves_call_pending:
  "executeTool project_fs broken_server bmad_orchestrator ''vision-processor'' (JObj [])
     = (Pending,
        [SocketNew ''wss://mcp.bmad.ai'',
         SocketSend (JObj [(''action'', JStr ''auth''), (''token'', JStr ''s3cr3t'')]),
         SocketSend (JObj [(''action'', JStr ''invoke''), (''namespace'', JStr ''vision-tools''),
                           (''toolId'', JStr ''vision-processor''), (''payload'', JObj [])]),
         SocketOnce])"
proof -
  have t: "js_prop (js_prop vision_processor_md ''tool'') ''type'' = JStr ''mcp''"
    by (simp add: vision_processor_md_def)
  have s: "new_socket broken_server (JStr ''wss://mcp.bmad.ai'')
             = Opens [] [WsError ''ECONNRESET'', WsClose]"
    by (simp add: broken_server_def offline_def)
  show ?thesis
    unfolding executeTool_mcp [OF resolve_vision orchestrator_passes t]
    by (simp add: vision_processor_md_def default_payload_def run_mcp_def connectMCP_def
        socket_address_def project_token s on_open_def call_def auth_message_def
        invoke_message_def)
qed


end
